theory Spec2Isabelle
  imports Complex_Main
begin

section \<open>Values and exceptions\<close>

text \<open>
  The statistical functions of \<^verbatim>\<open>openquake/hme/utils/stats.py\<close> compute with
  Python and numpy floats. A finite float is modelled as a \<^typ>\<open>real\<close>: arithmetic
  on finite values is exact, so rounding, underflow, and an overflow that silently gives
  an infinity are outside the model. The special values that numpy produces instead of
  raising (a division by zero, the logarithm of zero or of a negative number) are part of
  the model: \<open>npfloat\<close> adds the two infinities and NaN to the finite values. Where
  Python raises \<^verbatim>\<open>OverflowError\<close> because a result leaves the range of a double, the
  model raises it too.
\<close>

datatype py_error =
  ValueError | ZeroDivisionError | OverflowError | KeyError | AttributeError

datatype npfloat = Fin real | PInf | NInf | NaN

fun np_neg :: "npfloat \<Rightarrow> npfloat" where
  "np_neg (Fin x) = Fin (- x)"
| "np_neg PInf = NInf"
| "np_neg NInf = PInf"
| "np_neg NaN = NaN"

fun np_add :: "npfloat \<Rightarrow> npfloat \<Rightarrow> npfloat" where
  "np_add NaN _ = NaN"
| "np_add _ NaN = NaN"
| "np_add (Fin x) (Fin y) = Fin (x + y)"
| "np_add (Fin _) PInf = PInf"
| "np_add (Fin _) NInf = NInf"
| "np_add PInf (Fin _) = PInf"
| "np_add NInf (Fin _) = NInf"
| "np_add PInf PInf = PInf"
| "np_add NInf NInf = NInf"
| "np_add PInf NInf = NaN"
| "np_add NInf PInf = NaN"

definition np_sub :: "npfloat \<Rightarrow> npfloat \<Rightarrow> npfloat" where
  "np_sub a b = np_add a (np_neg b)"

definition np_scale :: "real \<Rightarrow> npfloat \<Rightarrow> npfloat" where
  \<comment> \<open>a finite factor times an infinity: the sign decides, and zero times infinity is NaN\<close>
  "np_scale x w = (if 0 < x then w else if x < 0 then np_neg w else NaN)"

fun np_mul :: "npfloat \<Rightarrow> npfloat \<Rightarrow> npfloat" where
  "np_mul NaN _ = NaN"
| "np_mul _ NaN = NaN"
| "np_mul (Fin x) (Fin y) = Fin (x * y)"
| "np_mul (Fin x) PInf = np_scale x PInf"
| "np_mul (Fin x) NInf = np_scale x NInf"
| "np_mul PInf (Fin y) = np_scale y PInf"
| "np_mul NInf (Fin y) = np_scale y NInf"
| "np_mul PInf PInf = PInf"
| "np_mul NInf NInf = PInf"
| "np_mul PInf NInf = NInf"
| "np_mul NInf PInf = NInf"

definition np_div :: "real \<Rightarrow> real \<Rightarrow> npfloat" where
  \<comment> \<open>numpy's true division of finite floats: a zero divisor gives NaN or an infinity\<close>
  "np_div x y =
     (if y \<noteq> 0 then Fin (x / y)
      else if x = 0 then NaN
      else if 0 < x then PInf else NInf)"

fun np_log :: "npfloat \<Rightarrow> npfloat" where
  "np_log (Fin x) = (if 0 < x then Fin (ln x) else if x = 0 then NInf else NaN)"
| "np_log PInf = PInf"
| "np_log NInf = NaN"
| "np_log NaN = NaN"

definition np_sum :: "npfloat list \<Rightarrow> npfloat" where
  "np_sum xs = foldl np_add (Fin 0) xs"

text \<open>
  \<^verbatim>\<open>math.factorial\<close> of an \<^verbatim>\<open>int\<close> raises \<^verbatim>\<open>ValueError\<close> below zero. Given a
  float it raises \<^verbatim>\<open>ValueError\<close> unless the float is a non-negative whole number
  (Python up to 3.9; later versions accept no float at all).
\<close>

definition math_factorial :: "int \<Rightarrow> py_error + nat" where
  "math_factorial n = (if n < 0 then Inl ValueError else Inr (fact (nat n)))"

definition math_factorial_float :: "real \<Rightarrow> py_error + nat" where
  "math_factorial_float x =
     (if x \<noteq> of_int \<lfloor>x\<rfloor> then Inl ValueError else math_factorial \<lfloor>x\<rfloor>)"

section \<open>Poisson and negative binomial likelihoods\<close>

text \<open>
  \<^verbatim>\<open>poisson_likelihood_zero_rate\<close> compares its first argument with zero only, and
  \<^verbatim>\<open>poisson_log_likelihood\<close> hands it a float where \<^verbatim>\<open>poisson_likelihood\<close> hands
  it an \<^verbatim>\<open>int\<close>; the model is polymorphic in that argument for this reason.
\<close>

definition poisson_likelihood_zero_rate :: "'a::linordered_idom \<Rightarrow> real \<Rightarrow> py_error + real" where
  "poisson_likelihood_zero_rate num_events not_modeled_val =
     (if num_events = 0 then Inr 1
      else if num_events > 0 then Inr not_modeled_val
      else Inl ValueError)"

text \<open>
  A real number overflows when rounding it to the nearest double gives an infinity. The
  largest double is \<^verbatim>\<open>2^1024 - 2^971\<close>; everything from half a step above it on,
  that is from \<^verbatim>\<open>2^1024 - 2^970\<close>, rounds to an infinity.
\<close>

definition overflows :: "real \<Rightarrow> bool" where
  "overflows x = (2 ^ 1024 - 2 ^ 970 \<le> \<bar>x\<bar>)"

text \<open>
  \<^verbatim>\<open>x ** n\<close> for a Python float \<^verbatim>\<open>x\<close> and an \<^verbatim>\<open>int\<close> \<^verbatim>\<open>n\<close>. The exponent
  is converted to a float first (\<^verbatim>\<open>OverflowError\<close> when it is too large), zero to a
  negative power raises \<^verbatim>\<open>ZeroDivisionError\<close>, and a result outside the range of a
  double raises \<^verbatim>\<open>OverflowError\<close>.
\<close>

definition float_pow_int :: "real \<Rightarrow> int \<Rightarrow> py_error + real" where
  "float_pow_int x n =
     (if overflows (of_int n) then Inl OverflowError
      else if x = 0 \<and> n < 0 then Inl ZeroDivisionError
      else if overflows (x powi n) then Inl OverflowError
      else Inr (x powi n))"

text \<open>
  In the branch for a non-zero rate the operands of
  \<^verbatim>\<open>np.exp(-rt) * rt**num_events / np.math.factorial(num_events)\<close> are evaluated from
  left to right: \<^verbatim>\<open>np.exp\<close> raises nothing, the power comes next, the factorial
  after it (\<^verbatim>\<open>ValueError\<close> for a negative \<^verbatim>\<open>num_events\<close>), and the division
  converts the factorial to a float (\<^verbatim>\<open>OverflowError\<close> from 171! on).
\<close>

definition poisson_likelihood :: "int \<Rightarrow> real \<Rightarrow> real \<Rightarrow> real \<Rightarrow> py_error + real" where
  "poisson_likelihood num_events rate time_interval not_modeled_val =
     (if rate = 0 then poisson_likelihood_zero_rate num_events not_modeled_val
      else
        let rt = rate * time_interval in
        case float_pow_int rt num_events of
          Inl e \<Rightarrow> Inl e
        | Inr p \<Rightarrow>
            (case math_factorial num_events of
               Inl e \<Rightarrow> Inl e
             | Inr f \<Rightarrow>
                 if overflows (real f) then Inl OverflowError
                 else Inr (exp (- rt) * p / real f)))"

definition poisson_log_likelihood :: "int \<Rightarrow> real \<Rightarrow> real \<Rightarrow> real \<Rightarrow> py_error + npfloat" where
  "poisson_log_likelihood num_events rate time_interval not_modeled_val =
     (if rate = 0 then
        (case poisson_likelihood_zero_rate rate not_modeled_val of
           Inl e \<Rightarrow> Inl e
         | Inr l \<Rightarrow> Inr (np_log (Fin l)))
      else
        let rt = rate * time_interval;
            lhs = np_add (Fin (- 1 * rt)) (np_mul (Fin (of_int num_events)) (np_log (Fin rt)))
        in case math_factorial_float rt of
             Inl e \<Rightarrow> Inl e
           | Inr f \<Rightarrow> Inr (np_sub lhs (np_log (Fin (real f)))))"

text \<open>
  \<^verbatim>\<open>negative_binomial_distribution\<close> returns the Poisson likelihood (with the default
  time interval and not-modelled value) when the dispersion is zero. Its other branch
  evaluates scipy's \<^verbatim>\<open>gamma\<close> and \<^verbatim>\<open>factorial\<close>; that branch is the parameter
  \<open>nb_pmf\<close>.
\<close>

definition negative_binomial_distribution ::
  "(int \<Rightarrow> real \<Rightarrow> real \<Rightarrow> py_error + real) \<Rightarrow> int \<Rightarrow> real \<Rightarrow> real \<Rightarrow> py_error + real" where
  "negative_binomial_distribution nb_pmf num_events mean_rate dispersion =
     (if dispersion = 0 then poisson_likelihood num_events mean_rate 1 0
      else nb_pmf num_events mean_rate dispersion)"

section \<open>Kullback-Leibler divergence\<close>

text \<open>
  numpy combines two one-dimensional arrays elementwise when they have the same length,
  stretches an array of length one to the other's length, and raises
  \<^verbatim>\<open>ValueError\<close> otherwise.
\<close>

definition np_broadcast :: "'a list \<Rightarrow> 'b list \<Rightarrow> py_error + ('a \<times> 'b) list" where
  "np_broadcast xs ys =
     (if length xs = length ys then Inr (zip xs ys)
      else if length xs = 1 then Inr (map (\<lambda>y. (hd xs, y)) ys)
      else if length ys = 1 then Inr (map (\<lambda>x. (x, hd ys)) xs)
      else Inl ValueError)"

definition kullback_leibler_divergence :: "real list \<Rightarrow> real list \<Rightarrow> py_error + npfloat" where
  "kullback_leibler_divergence p q =
     (case np_broadcast p q of
        Inl e \<Rightarrow> Inl e
      | Inr pq \<Rightarrow> Inr (np_sum (map (\<lambda>(pp, qq). np_mul (Fin pp) (np_log (np_div pp qq))) pq)))"

section \<open>Frequencies of earthquake counts\<close>

text \<open>
  \<^verbatim>\<open>np.unique(eq_counts, return_counts=True)\<close> returns the distinct values in
  increasing order and, beside each, how often it occurs.
\<close>

definition np_unique_counts :: "int list \<Rightarrow> int list \<times> nat list" where
  "np_unique_counts xs = (let us = sort (remdups xs) in (us, map (count_list xs) us))"

text \<open>
  The dictionary comprehension of \<^verbatim>\<open>get_mfd_freq_counts\<close> is an association list in
  insertion order. \<^verbatim>\<open>sum(n_occurrences)\<close> is the length of the input, so it is
  positive whenever the comprehension has a quotient to compute.
\<close>

definition get_mfd_freq_counts :: "int list \<Rightarrow> (int \<times> real) list" where
  "get_mfd_freq_counts eq_counts =
     (let (n_eqs, n_occurrences) = np_unique_counts eq_counts
      in map (\<lambda>(i, n_eq). (n_eq, real (n_occurrences ! i) / real (sum_list n_occurrences)))
           (enumerate 0 n_eqs))"

section \<open>Stochastic magnitude-frequency distributions\<close>

text \<open>
  The class \<^verbatim>\<open>SpacemagBin\<close> is imported from \<^verbatim>\<open>openquake.hme.utils\<close>; the functions
  here use two of its attributes and two of its methods, which the record holds as
  fields. A method that draws random numbers takes the state of the generator (of type
  \<open>'g\<close>) and returns the new one. A dictionary returned by a method is the list of its
  items.
\<close>

record ('g, 'obs) SpacemagBin =
  mag_bin_centers :: "real list"
  observed_earthquakes :: "'obs"
  get_rupture_mfd :: "bool \<Rightarrow> (real \<times> real) list"
  get_rupture_sample_mfd :: "real \<Rightarrow> bool \<Rightarrow> bool \<Rightarrow> 'g \<Rightarrow> (real \<times> real) list \<times> 'g"

definition py_int :: "real \<Rightarrow> int" where
  \<comment> \<open>\<^verbatim>\<open>int(x)\<close> drops the fractional part\<close>
  "py_int x = (if 0 \<le> x then \<lfloor>x\<rfloor> else \<lceil>x\<rceil>)"

text \<open>The inner loop: \<^verbatim>\<open>mfd_counts[bc].append(int(n_eqs))\<close> for every item of one sample.\<close>

fun append_counts :: "(real \<rightharpoonup> int list) \<Rightarrow> (real \<times> real) list \<Rightarrow> py_error + (real \<rightharpoonup> int list)" where
  "append_counts mfd_counts [] = Inr mfd_counts"
| "append_counts mfd_counts ((bc, n_eqs) # items) =
     (case mfd_counts bc of
        None \<Rightarrow> Inl KeyError
      | Some counts \<Rightarrow> append_counts (mfd_counts(bc \<mapsto> counts @ [py_int n_eqs])) items)"

text \<open>The outer loop \<^verbatim>\<open>for i in range(n_iters)\<close>, with the iterations still to run.\<close>

fun sample_loop ::
  "('g, 'obs) SpacemagBin \<Rightarrow> real \<Rightarrow> nat \<Rightarrow> (real \<rightharpoonup> int list) \<Rightarrow> 'g
     \<Rightarrow> py_error + ((real \<rightharpoonup> int list) \<times> 'g)" where
  "sample_loop spacemag_bin interval_length 0 mfd_counts g = Inr (mfd_counts, g)"
| "sample_loop spacemag_bin interval_length (Suc k) mfd_counts g =
     (let (sample_mfd, g') = get_rupture_sample_mfd spacemag_bin interval_length False False g
      in case append_counts mfd_counts sample_mfd of
           Inl e \<Rightarrow> Inl e
         | Inr mfd_counts' \<Rightarrow> sample_loop spacemag_bin interval_length k mfd_counts' g')"

definition get_stochastic_mfd_counts ::
  "('g, 'obs) SpacemagBin \<Rightarrow> int \<Rightarrow> real \<Rightarrow> 'g \<Rightarrow> py_error + ((real \<rightharpoonup> int list) \<times> 'g)" where
  "get_stochastic_mfd_counts spacemag_bin n_iters interval_length g =
     sample_loop spacemag_bin interval_length (nat n_iters)
       (map_of (map (\<lambda>bc. (bc, [])) (mag_bin_centers spacemag_bin))) g"

definition get_stochastic_mfd ::
  "('g, 'obs) SpacemagBin \<Rightarrow> int \<Rightarrow> real \<Rightarrow> 'g
     \<Rightarrow> py_error + ((real \<rightharpoonup> (int \<times> real) list) \<times> 'g)" where
  "get_stochastic_mfd spacemag_bin n_iters interval_length g =
     (case get_stochastic_mfd_counts spacemag_bin n_iters interval_length g of
        Inl e \<Rightarrow> Inl e
      | Inr (mfd_counts, g') \<Rightarrow> Inr (map_option get_mfd_freq_counts \<circ> mfd_counts, g'))"

section \<open>The likelihood tests on a bin collection\<close>

text \<open>
  A pandas series is the list of its labelled values. The bin collection
  (\<^verbatim>\<open>bin_gdf\<close>) has one row per spatial cell, labelled by the cell's key (labels
  are unique), with the row's \<^verbatim>\<open>SpacemagBin\<close>, and the column \<^verbatim>\<open>log_like\<close> once a
  test has written it.
\<close>

record ('k, 'b) bin_gdf =
  bin_rows :: "('k \<times> 'b) list"
  log_like :: "('k \<times> npfloat) list option"

record likelihood_config =
  likelihood_method :: string
  n_iters :: int
  investigation_time :: real
  not_modeled_val :: real
  default_likelihood :: npfloat

record cfg =
  parallel :: bool
  likelihood :: likelihood_config
  report :: bool

text \<open>
  The model handed to \<^verbatim>\<open>calc_mfd_log_likelihood_independent\<close>: rates per magnitude
  for the Poisson method, frequencies of counts per magnitude for the empirical one.
\<close>

datatype mfd_dict =
    RateMFD "(real \<times> real) list"
  | FreqMFD "real \<rightharpoonup> (int \<times> real) list"

text \<open>
  \<^verbatim>\<open>Series.apply\<close> calls the function on every value in order; an exception ends
  it. The first variant is for a pure function of the row, the second threads the state
  of the random generator.
\<close>

fun series_apply :: "('k \<Rightarrow> 'b \<Rightarrow> py_error + 'c) \<Rightarrow> ('k \<times> 'b) list \<Rightarrow> py_error + ('k \<times> 'c) list" where
  "series_apply f [] = Inr []"
| "series_apply f ((k, b) # rest) =
     (case f k b of
        Inl e \<Rightarrow> Inl e
      | Inr c \<Rightarrow> (case series_apply f rest of Inl e \<Rightarrow> Inl e | Inr cs \<Rightarrow> Inr ((k, c) # cs)))"

fun series_apply_st ::
  "('b \<Rightarrow> 'g \<Rightarrow> py_error + ('c \<times> 'g)) \<Rightarrow> ('k \<times> 'b) list \<Rightarrow> 'g \<Rightarrow> py_error + (('k \<times> 'c) list \<times> 'g)" where
  "series_apply_st f [] g = Inr ([], g)"
| "series_apply_st f ((k, b) # rest) g =
     (case f b g of
        Inl e \<Rightarrow> Inl e
      | Inr (c, g') \<Rightarrow>
          (case series_apply_st f rest g' of
             Inl e \<Rightarrow> Inl e
           | Inr (cs, g'') \<Rightarrow> Inr ((k, c) # cs, g'')))"

fun isnan :: "npfloat \<Rightarrow> bool" where
  "isnan NaN = True"
| "isnan _ = False"

text \<open>
  \<^verbatim>\<open>Series.update(other)\<close> aligns on the label and overwrites a value with the one
  of \<^verbatim>\<open>other\<close> that is not NaN; it adds and removes no label.
\<close>

definition series_update :: "('k \<times> npfloat) list \<Rightarrow> ('k \<times> npfloat) list \<Rightarrow> ('k \<times> npfloat) list" where
  "series_update self other =
     map (\<lambda>(k, v). case map_of other k of
                      None \<Rightarrow> (k, v)
                    | Some w \<Rightarrow> if isnan w then (k, v) else (k, w)) self"

text \<open>
  The two closing statements of both tests:
  \<^verbatim>\<open>bin_gdf['log_like'] = test_config['default_likelihood']\<close> and
  \<^verbatim>\<open>bin_gdf['log_like'].update(source_bin_log_likes)\<close>.
\<close>

definition write_log_like ::
  "npfloat \<Rightarrow> ('k \<times> npfloat) list \<Rightarrow> ('k, 'b) bin_gdf \<Rightarrow> ('k, 'b) bin_gdf" where
  "write_log_like placeholder source_bin_log_likes gdf =
     gdf\<lparr>log_like :=
       Some (series_update (map (\<lambda>(k, b). (k, placeholder)) (bin_rows gdf)) source_bin_log_likes)\<rparr>"

text \<open>
  \<^verbatim>\<open>get_source_bins\<close> (of \<^verbatim>\<open>openquake.hme.utils\<close>) and
  \<^verbatim>\<open>calc_mfd_log_likelihood_independent\<close> (of \<^verbatim>\<open>gem_stats\<close>) are parameters of the
  tests, and so is \<^verbatim>\<open>parallelize\<close>. The arguments of
  \<^verbatim>\<open>calc_mfd_log_likelihood_independent\<close> are the observed earthquakes, the model, the
  time interval when the caller passes one, the not-modelled value and the method.
\<close>

type_synonym 'obs calc = "'obs \<Rightarrow> mfd_dict \<Rightarrow> real option \<Rightarrow> real \<Rightarrow> string \<Rightarrow> py_error + npfloat"

text \<open>
  Each test defines a local function \<^verbatim>\<open>calc_row_log_like(row, mfd_df=source_bin_mfds)\<close>
  and applies it to every row of the source bins; \<^verbatim>\<open>row._name\<close> is the row's label.
\<close>

definition poisson_calc_row_log_like ::
  "'obs calc \<Rightarrow> likelihood_config \<Rightarrow> ('k \<times> (real \<times> real) list) list
     \<Rightarrow> 'k \<Rightarrow> ('g, 'obs) SpacemagBin \<Rightarrow> py_error + npfloat" where
  "poisson_calc_row_log_like calc_mfd_log_likelihood_independent test_config mfd_df name row =
     (case map_of mfd_df name of
        None \<Rightarrow> Inl KeyError
      | Some mfd \<Rightarrow>
          calc_mfd_log_likelihood_independent (observed_earthquakes row) (RateMFD mfd)
            (Some (investigation_time test_config)) (not_modeled_val test_config) ''poisson'')"

definition mfd_poisson_likelihood_test ::
  "(('k \<times> ('g, 'obs) SpacemagBin) list \<Rightarrow> ('k \<times> ('g, 'obs) SpacemagBin) list) \<Rightarrow> 'obs calc
     \<Rightarrow> cfg \<Rightarrow> ('k, ('g, 'obs) SpacemagBin) bin_gdf \<Rightarrow> py_error + ('k, ('g, 'obs) SpacemagBin) bin_gdf" where
  "mfd_poisson_likelihood_test get_source_bins calc_mfd_log_likelihood_independent c gdf =
     (let test_config = likelihood c;
          source_bin_gdf = get_source_bins (bin_rows gdf);
          source_bin_mfds = map (\<lambda>(k, x). (k, get_rupture_mfd x False)) source_bin_gdf
      in case series_apply
                (poisson_calc_row_log_like calc_mfd_log_likelihood_independent test_config source_bin_mfds)
                source_bin_gdf of
           Inl e \<Rightarrow> Inl e
         | Inr source_bin_log_likes \<Rightarrow>
             Inr (write_log_like (default_likelihood test_config) source_bin_log_likes gdf))"

definition source_bin_mfd_apply ::
  "('k \<times> ('g, 'obs) SpacemagBin) list \<Rightarrow> int \<Rightarrow> real \<Rightarrow> 'g
     \<Rightarrow> py_error + (('k \<times> (real \<rightharpoonup> (int \<times> real) list)) list \<times> 'g)" where
  "source_bin_mfd_apply geo_series iters interval_length g =
     series_apply_st (\<lambda>b. get_stochastic_mfd b iters interval_length) geo_series g"

type_synonym ('k, 'g, 'obs) parallelize =
  "(('k \<times> ('g, 'obs) SpacemagBin) list \<Rightarrow> 'g
       \<Rightarrow> py_error + (('k \<times> (real \<rightharpoonup> (int \<times> real) list)) list \<times> 'g))
     \<Rightarrow> ('k \<times> ('g, 'obs) SpacemagBin) list \<Rightarrow> 'g
     \<Rightarrow> py_error + (('k \<times> (real \<rightharpoonup> (int \<times> real) list)) list \<times> 'g)"

definition get_stochastic_mfds_parallel ::
  "('k, 'g, 'obs) parallelize \<Rightarrow> ('k \<times> ('g, 'obs) SpacemagBin) list \<Rightarrow> int \<Rightarrow> real \<Rightarrow> 'g
     \<Rightarrow> py_error + (('k \<times> (real \<rightharpoonup> (int \<times> real) list)) list \<times> 'g)" where
  "get_stochastic_mfds_parallel parallelize geo_series iters interval_length g =
     parallelize (\<lambda>s. source_bin_mfd_apply s iters interval_length) geo_series g"

definition empirical_calc_row_log_like ::
  "'obs calc \<Rightarrow> likelihood_config \<Rightarrow> ('k \<times> (real \<rightharpoonup> (int \<times> real) list)) list
     \<Rightarrow> 'k \<Rightarrow> ('g, 'obs) SpacemagBin \<Rightarrow> py_error + npfloat" where
  "empirical_calc_row_log_like calc_mfd_log_likelihood_independent test_config mfd_df name row =
     (case map_of mfd_df name of
        None \<Rightarrow> Inl KeyError
      | Some mfd \<Rightarrow>
          calc_mfd_log_likelihood_independent (observed_earthquakes row) (FreqMFD mfd)
            None (not_modeled_val test_config) ''empirical'')"

definition mfd_empirical_likelihood_test ::
  "(('k \<times> ('g, 'obs) SpacemagBin) list \<Rightarrow> ('k \<times> ('g, 'obs) SpacemagBin) list) \<Rightarrow> 'obs calc
     \<Rightarrow> ('k, 'g, 'obs) parallelize
     \<Rightarrow> cfg \<Rightarrow> ('k, ('g, 'obs) SpacemagBin) bin_gdf \<Rightarrow> 'g
     \<Rightarrow> py_error + (('k, ('g, 'obs) SpacemagBin) bin_gdf \<times> 'g)" where
  "mfd_empirical_likelihood_test get_source_bins calc_mfd_log_likelihood_independent parallelize c gdf g =
     (let test_config = likelihood c;
          source_bin_gdf = get_source_bins (bin_rows gdf)
      in case (if \<not> parallel c
               then series_apply_st
                      (\<lambda>b. get_stochastic_mfd b (n_iters test_config) (investigation_time test_config))
                      source_bin_gdf g
               else get_stochastic_mfds_parallel parallelize source_bin_gdf
                      (n_iters test_config) (investigation_time test_config) g) of
           Inl e \<Rightarrow> Inl e
         | Inr (source_bin_mfds, g') \<Rightarrow>
             (case series_apply
                     (empirical_calc_row_log_like calc_mfd_log_likelihood_independent test_config
                        source_bin_mfds)
                     source_bin_gdf of
                Inl e \<Rightarrow> Inl e
              | Inr source_bin_log_likes \<Rightarrow>
                  Inr (write_log_like (default_likelihood test_config) source_bin_log_likes gdf, g')))"

text \<open>
  \<^verbatim>\<open>mfd_likelihood_test\<close> chooses between the two tests, and returns the HTML summary
  of the column \<^verbatim>\<open>log_like\<close> (the parameter \<open>describe_html\<close>) when the
  configuration has a \<^verbatim>\<open>report\<close> section, \<^verbatim>\<open>None\<close> otherwise. Reading
  \<^verbatim>\<open>bin_gdf.log_like\<close> from a collection without that column raises
  \<^verbatim>\<open>AttributeError\<close>.
\<close>

definition mfd_likelihood_test ::
  "(('k \<times> ('g, 'obs) SpacemagBin) list \<Rightarrow> ('k \<times> ('g, 'obs) SpacemagBin) list) \<Rightarrow> 'obs calc
     \<Rightarrow> ('k, 'g, 'obs) parallelize \<Rightarrow> (('k \<times> npfloat) list \<Rightarrow> string)
     \<Rightarrow> cfg \<Rightarrow> ('k, ('g, 'obs) SpacemagBin) bin_gdf \<Rightarrow> 'g
     \<Rightarrow> py_error + (('k, ('g, 'obs) SpacemagBin) bin_gdf \<times> 'g \<times> string option)" where
  "mfd_likelihood_test get_source_bins calc_mfd_log_likelihood_independent parallelize describe_html c gdf g =
     (case (if likelihood_method (likelihood c) = ''empirical''
            then mfd_empirical_likelihood_test get_source_bins calc_mfd_log_likelihood_independent
                   parallelize c gdf g
            else if likelihood_method (likelihood c) = ''poisson''
            then (case mfd_poisson_likelihood_test get_source_bins calc_mfd_log_likelihood_independent c gdf of
                    Inl e \<Rightarrow> Inl e
                  | Inr gdf' \<Rightarrow> Inr (gdf', g))
            else Inr (gdf, g)) of
        Inl e \<Rightarrow> Inl e
      | Inr (gdf', g') \<Rightarrow>
          if report c
          then (case log_like gdf' of
                  None \<Rightarrow> Inl AttributeError
                | Some col \<Rightarrow> Inr (gdf', g', Some (describe_html col)))
          else Inr (gdf', g', None))"

text \<open>
  What both tests leave behind: the rows are those of the collection before the test,
  the column \<^verbatim>\<open>log_like\<close> has one value per row, and the value of every row whose
  label is not among the source bins is the placeholder.
\<close>

definition default_filled ::
  "('k \<times> 'b) list \<Rightarrow> npfloat \<Rightarrow> ('k, 'b) bin_gdf \<Rightarrow> ('k, 'b) bin_gdf \<Rightarrow> bool" where
  "default_filled source_bin_gdf placeholder gdf gdf' =
     (bin_rows gdf' = bin_rows gdf
      \<and> (\<exists>col. log_like gdf' = Some col
            \<and> map fst col = map fst (bin_rows gdf)
            \<and> (\<forall>(k, v) \<in> set col. k \<notin> fst ` set source_bin_gdf \<longrightarrow> v = placeholder)))"

section \<open>A small bin collection\<close>

text \<open>
  Two cells with the magnitude bins 5 and 6: one with ruptures, whose sampled count in
  the first magnitude bin is the state of the generator, and one without ruptures. The
  source bins are the rows with a positive total rate; the likelihood of a row is a
  constant per method; \<^verbatim>\<open>parallelize\<close> runs its function in place.
\<close>

definition ex_source_bin :: "(nat, (real \<times> nat) list) SpacemagBin" where
  "ex_source_bin =
     \<lparr>mag_bin_centers = [5, 6],
      observed_earthquakes = [(5, 1), (6, 0)],
      get_rupture_mfd = (\<lambda>cumulative. if cumulative then [(5, 3/10), (6, 1/10)]
                                      else [(5, 2/10), (6, 1/10)]),
      get_rupture_sample_mfd = (\<lambda>interval_length normalize cumulative g.
                                 ([(5, real g), (6, 2)], Suc g))\<rparr>"

definition ex_empty_bin :: "(nat, (real \<times> nat) list) SpacemagBin" where
  "ex_empty_bin =
     \<lparr>mag_bin_centers = [5, 6],
      observed_earthquakes = [(5, 0), (6, 0)],
      get_rupture_mfd = (\<lambda>cumulative. [(5, 0), (6, 0)]),
      get_rupture_sample_mfd = (\<lambda>interval_length normalize cumulative g.
                                 ([(5, 0), (6, 0)], g))\<rparr>"

definition ex_get_source_bins ::
  "(nat \<times> (nat, (real \<times> nat) list) SpacemagBin) list
     \<Rightarrow> (nat \<times> (nat, (real \<times> nat) list) SpacemagBin) list" where
  "ex_get_source_bins rows =
     filter (\<lambda>(k, b). 0 < sum_list (map snd (get_rupture_mfd b True))) rows"

definition ex_calc :: "((real \<times> nat) list) calc" where
  "ex_calc obs mfd time_interval nmv method =
     Inr (Fin (if method = ''poisson'' then - 1 else - 2))"

definition ex_parallelize :: "(nat, nat, (real \<times> nat) list) parallelize" where
  "ex_parallelize f geo_series g = f geo_series g"

definition ex_cfg :: "string \<Rightarrow> cfg" where
  "ex_cfg method =
     \<lparr>parallel = False,
      likelihood = \<lparr>likelihood_method = method, n_iters = 2, investigation_time = 1,
                     not_modeled_val = 0, default_likelihood = Fin (- 100)\<rparr>,
      report = False\<rparr>"

definition ex_bin_gdf :: "(nat, (nat, (real \<times> nat) list) SpacemagBin) bin_gdf" where
  "ex_bin_gdf = \<lparr>bin_rows = [(1, ex_source_bin), (2, ex_empty_bin)], log_like = None\<rparr>"

section \<open>Properties of the likelihood functions\<close>

text \<open>
  C1. With a rate of zero, \<^verbatim>\<open>poisson_likelihood\<close> returns 1.0 for no event and the
  given \<^verbatim>\<open>not_modeled_val\<close> for a positive number of events, whatever the time
  interval; it raises in neither case.
\<close>

theorem poisson_likelihood_zero_rate_value:
  assumes "0 \<le> num_events"
  shows "poisson_likelihood num_events 0 time_interval nmv =
           Inr (if num_events = 0 then 1 else nmv)"
  using assms by (simp add: poisson_likelihood_def poisson_likelihood_zero_rate_def)

theorem poisson_likelihood_zero_rate_value_witness:
  "(0::int) \<le> 2 \<and> poisson_likelihood 2 0 1 (1/2) = Inr (1/2) \<and> poisson_likelihood 0 0 1 (1/2) = Inr 1"
  using poisson_likelihood_zero_rate_value [of 2 1 "1/2"]
    poisson_likelihood_zero_rate_value [of 0 1 "1/2"]
  by simp

text \<open>
  C2. \<^verbatim>\<open>poisson_log_likelihood\<close> passes \<^verbatim>\<open>rate\<close>, not \<^verbatim>\<open>num_events\<close>, to
  \<^verbatim>\<open>poisson_likelihood_zero_rate\<close>. With a rate of zero, one event and the default
  \<^verbatim>\<open>not_modeled_val\<close> it returns 0.0, the logarithm of 1.0, where
  \<^verbatim>\<open>poisson_likelihood\<close> returns the not-modelled value 0.0, whose logarithm is
  minus infinity.
\<close>

theorem poisson_log_likelihood_zero_rate_one_event:
  "poisson_log_likelihood 1 0 1 0 = Inr (Fin 0)
   \<and> poisson_likelihood 1 0 1 0 = Inr 0
   \<and> np_log (Fin 0) = NInf"
  by (simp add: poisson_log_likelihood_def poisson_likelihood_def poisson_likelihood_zero_rate_def)

text \<open>
  C5. With dispersion zero \<^verbatim>\<open>negative_binomial_distribution\<close> does what
  \<^verbatim>\<open>poisson_likelihood\<close> does for the same events and rate, whether that is a value
  or an exception. For a non-negative number of events and a non-negative mean rate,
  when neither the power nor the factorial overflows, both return the Poisson
  probability.
\<close>

theorem negative_binomial_zero_dispersion:
  "negative_binomial_distribution nb_pmf num_events mean_rate 0 =
     poisson_likelihood num_events mean_rate 1 0
   \<and> (0 \<le> num_events \<and> 0 \<le> mean_rate
        \<and> \<not> overflows (mean_rate ^ nat num_events)
        \<and> \<not> overflows (real (fact (nat num_events)))
      \<longrightarrow> poisson_likelihood num_events mean_rate 1 0 =
            Inr (exp (- mean_rate) * mean_rate ^ nat num_events / real (fact (nat num_events))))"
proof (intro conjI impI)
  show "negative_binomial_distribution nb_pmf num_events mean_rate 0 =
     poisson_likelihood num_events mean_rate 1 0"
    by (simp add: negative_binomial_distribution_def)
next
  assume h: "0 \<le> num_events \<and> 0 \<le> mean_rate
        \<and> \<not> overflows (mean_rate ^ nat num_events)
        \<and> \<not> overflows (real (fact (nat num_events)))"
  have "real (nat num_events) \<le> real (fact (nat num_events))"
    using fact_ge_self [of "nat num_events"] by (simp only: of_nat_le_iff)
  then have n: "\<not> overflows (of_int num_events)"
    using h by (simp add: overflows_def)
  have p: "mean_rate powi num_events = mean_rate ^ nat num_events"
    using h by (simp add: power_int_def)
  show "poisson_likelihood num_events mean_rate 1 0 =
            Inr (exp (- mean_rate) * mean_rate ^ nat num_events / real (fact (nat num_events)))"
  proof (cases "mean_rate = 0")
    case True
    then show ?thesis
      using h
      by (cases "num_events = 0")
        (simp_all add: poisson_likelihood_def poisson_likelihood_zero_rate_def)
  next
    case False
    then show ?thesis
      using h n p
      by (simp add: poisson_likelihood_def float_pow_int_def math_factorial_def)
  qed
qed

theorem negative_binomial_zero_dispersion_witness:
  "negative_binomial_distribution (\<lambda>n m d. Inl ValueError) 2 3 0 = poisson_likelihood 2 3 1 0
   \<and> poisson_likelihood 2 3 1 0 = Inr (exp (- 3) * 9 / 2)"
  using negative_binomial_zero_dispersion [of "\<lambda>n m d. Inl ValueError" 2 3]
  by (simp add: overflows_def)

text \<open>
  The largest number of events whose factorial is in the range of a double is 170; from
  171 on, at a non-zero rate, both functions raise \<^verbatim>\<open>OverflowError\<close>.
\<close>

lemma factorial_overflows_from_171:
  "\<not> overflows (real (fact 170)) \<and> overflows (real (fact 171))"
  by (simp add: overflows_def fact_numeral)

lemma poisson_likelihood_171_events:
  "poisson_likelihood 171 1 1 0 = Inl OverflowError"
  by (simp add: poisson_likelihood_def float_pow_int_def overflows_def math_factorial_def
      fact_numeral)

text \<open>
  For a negative number of events \<^verbatim>\<open>poisson_likelihood(num_events, rate)\<close> always
  raises: \<^verbatim>\<open>ValueError\<close> from \<^verbatim>\<open>poisson_likelihood_zero_rate\<close> when the rate is zero
  and from \<^verbatim>\<open>np.math.factorial\<close> otherwise, unless \<^verbatim>\<open>rt**num_events\<close>, which is
  evaluated before the factorial, raises \<^verbatim>\<open>OverflowError\<close>.
\<close>

lemma poisson_likelihood_negative_events_raises:
  assumes "num_events < 0"
  shows "poisson_likelihood num_events rate 1 nmv =
     (if rate \<noteq> 0 \<and> (overflows (of_int num_events) \<or> overflows (rate powi num_events))
      then Inl OverflowError else Inl ValueError)"
  using assms
  by (simp add: poisson_likelihood_def poisson_likelihood_zero_rate_def float_pow_int_def
      math_factorial_def)

text \<open>
  C8. \<^verbatim>\<open>poisson_likelihood(-2, 1e-200)\<close> raises \<^verbatim>\<open>OverflowError\<close>, not the
  \<^verbatim>\<open>ValueError\<close> that a negative number of events raises at the rate 0.5 and, by the
  check of \<^verbatim>\<open>poisson_likelihood_zero_rate\<close>, at the rate zero: the branch for a
  non-zero rate has no check of its own, and the power overflows before the factorial is
  reached.
\<close>

theorem poisson_likelihood_negative_events_overflow:
  "poisson_likelihood (- 2) (1 / 10 ^ 200) 1 0 = Inl OverflowError
   \<and> poisson_likelihood (- 2) (1 / 2) 1 0 = Inl ValueError
   \<and> poisson_likelihood (- 2) 0 1 0 = Inl ValueError"
  by (simp add: poisson_likelihood_def poisson_likelihood_zero_rate_def float_pow_int_def
      overflows_def math_factorial_def power_int_def)

section \<open>Properties of the Kullback-Leibler divergence\<close>

lemma kl_term_self: "0 < x \<Longrightarrow> np_mul (Fin x) (np_log (np_div x x)) = Fin 0"
  by (simp add: np_div_def)

lemma foldl_np_add_zeros: "\<forall>x\<in>set xs. x = Fin 0 \<Longrightarrow> foldl np_add (Fin 0) xs = Fin 0"
  by (induction xs) auto

text \<open>
  C9, as the claim states it, fails for a distribution with a zero entry: for
  \<^verbatim>\<open>p = [0, 1]\<close> the quotient 0/0 is NaN, and so is the sum.
\<close>

theorem kullback_leibler_self_zero_entry:
  "sum_list [0, 1 :: real] = 1
   \<and> kullback_leibler_divergence [0, 1] [0, 1] = Inr NaN
   \<and> kullback_leibler_divergence [0, 1] [0, 1] \<noteq> Inr (Fin 0)"
  by (simp add: kullback_leibler_divergence_def np_broadcast_def np_sum_def np_div_def)

text \<open>
  C9, amended. For every sequence \<^verbatim>\<open>p\<close> of positive entries,
  \<^verbatim>\<open>kullback_leibler_divergence(p, p)\<close> is 0.
\<close>

theorem kullback_leibler_self_positive:
  assumes "\<forall>x\<in>set p. 0 < x"
  shows "kullback_leibler_divergence p p = Inr (Fin 0)"
  using assms
  by (auto simp: kullback_leibler_divergence_def np_broadcast_def np_sum_def kl_term_self
      zip_same_conv_map intro!: foldl_np_add_zeros)

theorem kullback_leibler_self_positive_witness:
  "(0::real) < 1/4 \<and> (0::real) < 3/4
   \<and> kullback_leibler_divergence [1/4, 3/4] [1/4, 3/4] = Inr (Fin 0)"
  using kullback_leibler_self_positive [of "[1/4, 3/4]"]
  by simp

section \<open>Properties of the frequencies of counts\<close>

lemma sum_list_counts: "sum_list (map (count_list xs) (sort (remdups xs))) = length xs"
proof -
  have "sum_list (map (count_list xs) (sort (remdups xs))) =
          sum (count_list xs) (set (sort (remdups xs)))"
    by (rule sum_list_distinct_conv_sum_set) simp
  also have "\<dots> = length xs"
    by (simp add: sum_count_set)
  finally show ?thesis .
qed

lemma map_enumerate_nth:
  assumes "length ns = length us"
  shows "map (\<lambda>(i, u). f (ns ! i) u) (enumerate 0 us) = map (\<lambda>(n, u). f n u) (zip ns us)"
  using assms by (intro nth_equalityI) (auto simp: nth_enumerate_eq)

lemma get_mfd_freq_counts_eq:
  "get_mfd_freq_counts xs =
     map (\<lambda>u. (u, real (count_list xs u) / real (length xs))) (sort (remdups xs))"
proof -
  let ?us = "sort (remdups xs)"
  have "get_mfd_freq_counts xs =
          map (\<lambda>(i, u). (u, real (map (count_list xs) ?us ! i) / real (length xs))) (enumerate 0 ?us)"
    by (simp add: get_mfd_freq_counts_def np_unique_counts_def Let_def sum_list_counts)
  also have "\<dots> = map (\<lambda>(n, u). (u, real n / real (length xs))) (zip (map (count_list xs) ?us) ?us)"
    by (rule map_enumerate_nth) simp
  also have "\<dots> = map (\<lambda>u. (u, real (count_list xs u) / real (length xs))) ?us"
    by (simp add: zip_map1 zip_same_conv_map)
  finally show ?thesis .
qed

lemma sum_list_quotients: "(\<Sum>u\<leftarrow>us. real (f u) / d) = real (sum_list (map f us)) / d"
  by (induction us) (simp_all add: add_divide_distrib)

text \<open>
  C6. \<^verbatim>\<open>get_mfd_freq_counts([4, 4, 5, 2, 4, 2, 5, 6])\<close> is the mapping
  \<^verbatim>\<open>{2: 0.25, 4: 0.375, 5: 0.25, 6: 0.125}\<close>, its items in this order.
\<close>

theorem get_mfd_freq_counts_regression:
  "get_mfd_freq_counts [4, 4, 5, 2, 4, 2, 5, 6] = [(2, 1/4), (4, 3/8), (5, 1/4), (6, 1/8)]"
  by (simp add: get_mfd_freq_counts_def np_unique_counts_def enumerate_eq_zip upt_rec)

text \<open>
  C10. For a non-empty sequence of counts the values of
  \<^verbatim>\<open>get_mfd_freq_counts\<close> are positive and sum to 1, and its keys are the distinct
  counts of the input, each once.
\<close>

theorem get_mfd_freq_counts_pmf:
  assumes "eq_counts \<noteq> []"
  shows "(\<forall>(k, v) \<in> set (get_mfd_freq_counts eq_counts). 0 < v)
     \<and> sum_list (map snd (get_mfd_freq_counts eq_counts)) = 1
     \<and> distinct (map fst (get_mfd_freq_counts eq_counts))
     \<and> set (map fst (get_mfd_freq_counts eq_counts)) = set eq_counts"
proof -
  let ?us = "sort (remdups eq_counts)"
  have pos: "\<forall>(k, v) \<in> set (get_mfd_freq_counts eq_counts). 0 < v"
  proof -
    have "0 < count_list eq_counts u" if "u \<in> set eq_counts" for u
      using that count_list_0_iff [of eq_counts u] by (cases "count_list eq_counts u") auto
    then show ?thesis
      using assms by (auto simp: get_mfd_freq_counts_eq)
  qed
  have "sum_list (map snd (get_mfd_freq_counts eq_counts)) =
          (\<Sum>u\<leftarrow>?us. real (count_list eq_counts u) / real (length eq_counts))"
    by (simp add: get_mfd_freq_counts_eq o_def)
  also have "\<dots> = real (sum_list (map (count_list eq_counts) ?us)) / real (length eq_counts)"
    by (rule sum_list_quotients)
  also have "\<dots> = 1"
    using assms by (simp add: sum_list_counts)
  finally have total: "sum_list (map snd (get_mfd_freq_counts eq_counts)) = 1" .
  have keys: "map fst (get_mfd_freq_counts eq_counts) = ?us"
    by (simp add: get_mfd_freq_counts_eq o_def)
  show ?thesis
    using pos total by (simp add: keys)
qed

theorem get_mfd_freq_counts_pmf_witness:
  "[1, 1, 3 :: int] \<noteq> []
   \<and> sum_list (map snd (get_mfd_freq_counts [1, 1, 3])) = 1
   \<and> set (map fst (get_mfd_freq_counts [1, 1, 3])) = {1, 3}"
  using get_mfd_freq_counts_pmf [of "[1, 1, 3]"]
  by simp

section \<open>Properties of the stochastic sampler\<close>

lemma append_counts_lengths:
  assumes "distinct (map fst items)" and "fst ` set items \<subseteq> dom m"
  shows "\<exists>m'. append_counts m items = Inr m' \<and> dom m' = dom m
           \<and> (\<forall>bc l. m bc = Some l \<longrightarrow>
                 (\<exists>l'. m' bc = Some l' \<and>
                    length l' = length l + (if bc \<in> fst ` set items then 1 else 0)))"
  using assms
proof (induction items arbitrary: m)
  case Nil
  then show ?case by simp
next
  case (Cons item items)
  obtain bc n where item: "item = (bc, n)" by (cases item)
  from Cons.prems item obtain counts where c: "m bc = Some counts" by auto
  let ?m = "m(bc \<mapsto> counts @ [py_int n])"
  have d: "distinct (map fst items)" and nin: "bc \<notin> fst ` set items"
    using Cons.prems item by auto
  have sub: "fst ` set items \<subseteq> dom ?m" using Cons.prems by auto
  from Cons.IH [OF d sub] obtain m' where
    r: "append_counts ?m items = Inr m'" and dm: "dom m' = dom ?m"
    and len: "\<And>k l. ?m k = Some l \<Longrightarrow>
         \<exists>l'. m' k = Some l' \<and> length l' = length l + (if k \<in> fst ` set items then 1 else 0)"
    by blast
  have "append_counts m (item # items) = Inr m'" using item c r by simp
  moreover have "dom m' = dom m" using dm c by auto
  moreover have "\<exists>l'. m' k = Some l' \<and>
        length l' = length l + (if k \<in> fst ` set (item # items) then 1 else 0)"
    if "m k = Some l" for k l
  proof (cases "k = bc")
    case True
    then have "?m k = Some (counts @ [py_int n])" by simp
    from len [OF this] show ?thesis using True that c nin item by auto
  next
    case False
    then have "?m k = Some l" using that by simp
    from len [OF this] show ?thesis using False item by auto
  qed
  ultimately show ?case by blast
qed

lemma sample_loop_lengths:
  assumes "\<And>g. distinct (map fst (fst (get_rupture_sample_mfd b il False False g)))
              \<and> set (map fst (fst (get_rupture_sample_mfd b il False False g))) = dom m"
    and "\<forall>bc l. m bc = Some l \<longrightarrow> length l = j"
  shows "\<exists>m' g'. sample_loop b il k m g = Inr (m', g') \<and> dom m' = dom m
           \<and> (\<forall>bc \<in> dom m. \<exists>l. m' bc = Some l \<and> length l = j + k)"
  using assms
proof (induction k arbitrary: m g j)
  case 0
  then show ?case by auto
next
  case (Suc k)
  obtain smp g1 where s: "get_rupture_sample_mfd b il False False g = (smp, g1)"
    by (cases "get_rupture_sample_mfd b il False False g")
  have ds: "distinct (map fst smp)" and ks: "fst ` set smp = dom m"
    using Suc.prems(1) [of g] s by auto
  from append_counts_lengths [OF ds, of m] ks obtain m1 where
    a: "append_counts m smp = Inr m1" and d1: "dom m1 = dom m"
    and l1: "\<And>bc l. m bc = Some l \<Longrightarrow> \<exists>l'. m1 bc = Some l' \<and>
               length l' = length l + (if bc \<in> fst ` set smp then 1 else 0)"
    by blast
  have "length l = Suc j" if "m1 bc = Some l" for bc l
  proof -
    from that d1 obtain l0 where m0: "m bc = Some l0" by (metis domD domI)
    then have "bc \<in> fst ` set smp" using ks by auto
    with l1 [OF m0] that Suc.prems(2) m0 show ?thesis by auto
  qed
  then have len1: "\<forall>bc l. m1 bc = Some l \<longrightarrow> length l = Suc j" by blast
  have h1: "\<And>g. distinct (map fst (fst (get_rupture_sample_mfd b il False False g)))
              \<and> set (map fst (fst (get_rupture_sample_mfd b il False False g))) = dom m1"
    using Suc.prems(1) d1 by simp
  from Suc.IH [of m1 "Suc j" g1, OF h1 len1] obtain m' g' where
    "sample_loop b il k m1 g1 = Inr (m', g')" "dom m' = dom m1"
    "\<forall>bc \<in> dom m1. \<exists>l. m' bc = Some l \<and> length l = Suc j + k"
    by blast
  then show ?case using s a d1 by auto
qed

lemma dom_initial_counts: "dom (map_of (map (\<lambda>bc. (bc, [])) cs)) = set cs"
  by (simp add: dom_map_of_conv_image_fst image_image)

lemma initial_counts_empty:
  "\<forall>bc l. map_of (map (\<lambda>bc. (bc, [])) cs) bc = Some l \<longrightarrow> length l = 0"
  by (auto dest!: map_of_SomeD)

text \<open>
  C7. When every call of \<^verbatim>\<open>get_rupture_sample_mfd\<close> returns a mapping whose keys
  are exactly the bin's \<^verbatim>\<open>mag_bin_centers\<close>, and \<^verbatim>\<open>n_iters\<close> is not negative,
  \<^verbatim>\<open>get_stochastic_mfd_counts\<close> returns (it raises no \<^verbatim>\<open>KeyError\<close>) a mapping whose
  keys are exactly the \<^verbatim>\<open>mag_bin_centers\<close>, each with a list of exactly
  \<^verbatim>\<open>n_iters\<close> integer counts.
\<close>

theorem get_stochastic_mfd_counts_shape:
  assumes "\<forall>g. distinct (map fst (fst (get_rupture_sample_mfd b il False False g)))
              \<and> set (map fst (fst (get_rupture_sample_mfd b il False False g))) =
                  set (mag_bin_centers b)"
    and "0 \<le> iters"
  shows "\<exists>m g'. get_stochastic_mfd_counts b iters il g = Inr (m, g')
           \<and> dom m = set (mag_bin_centers b)
           \<and> (\<forall>bc \<in> set (mag_bin_centers b).
                 \<exists>counts. m bc = Some counts \<and> int (length counts) = iters)"
proof -
  let ?m0 = "map_of (map (\<lambda>bc. (bc, [] :: int list)) (mag_bin_centers b))"
  have h: "\<And>g. distinct (map fst (fst (get_rupture_sample_mfd b il False False g)))
              \<and> set (map fst (fst (get_rupture_sample_mfd b il False False g))) = dom ?m0"
    using assms(1) by (simp only: dom_initial_counts)
  from sample_loop_lengths [of b il ?m0 0 "nat iters" g, OF h initial_counts_empty]
  obtain m g' where "sample_loop b il (nat iters) ?m0 g = Inr (m, g')" "dom m = dom ?m0"
    "\<forall>bc \<in> dom ?m0. \<exists>l. m bc = Some l \<and> length l = 0 + nat iters"
    by blast
  then show ?thesis
    using assms(2)
    by (auto simp: get_stochastic_mfd_counts_def dom_initial_counts simp del: map_of_eq_Some_iff)
qed

theorem get_stochastic_mfd_counts_shape_witness:
  "(0::int) \<le> 2
   \<and> (\<exists>m g'. get_stochastic_mfd_counts ex_source_bin 2 1 0 = Inr (m, g')
         \<and> dom m = {5, 6}
         \<and> (\<exists>counts. m 5 = Some counts \<and> int (length counts) = 2)
         \<and> (\<exists>counts. m 6 = Some counts \<and> int (length counts) = 2))"
proof -
  have h: "\<forall>g. distinct (map fst (fst (get_rupture_sample_mfd ex_source_bin 1 False False g)))
              \<and> set (map fst (fst (get_rupture_sample_mfd ex_source_bin 1 False False g))) =
                  set (mag_bin_centers ex_source_bin)"
    by (simp add: ex_source_bin_def)
  have c: "set (mag_bin_centers ex_source_bin) = {5, 6}"
    by (simp add: ex_source_bin_def)
  from get_stochastic_mfd_counts_shape [OF h, of 2 0] show ?thesis
    unfolding c by auto
qed

section \<open>Properties of the likelihood tests\<close>

lemma series_apply_labels: "series_apply f rows = Inr out \<Longrightarrow> map fst out = map fst rows"
  by (induction rows arbitrary: out) (auto split: sum.splits)

lemma series_update_labels: "map fst (series_update self other) = map fst self"
  by (auto simp: series_update_def split: option.splits)

lemma series_update_untouched:
  assumes "(k, v) \<in> set (series_update self other)" and "k \<notin> fst ` set other"
  shows "(k, v) \<in> set self"
proof -
  have "map_of other k = None"
    using assms(2) by (simp add: map_of_eq_None_iff)
  then show ?thesis
    using assms(1) by (auto simp: series_update_def split: option.splits if_splits)
qed

lemma write_log_like_filled:
  assumes "map fst source_bin_log_likes = map fst source_bin_gdf"
  shows "default_filled source_bin_gdf placeholder gdf
           (write_log_like placeholder source_bin_log_likes gdf)"
proof -
  let ?init = "map (\<lambda>(k, b). (k, placeholder)) (bin_rows gdf)"
  let ?col = "series_update ?init source_bin_log_likes"
  have labels: "map fst ?col = map fst (bin_rows gdf)"
    by (simp add: series_update_labels o_def case_prod_unfold)
  have same: "fst ` set source_bin_log_likes = fst ` set source_bin_gdf"
  proof -
    have "set (map fst source_bin_log_likes) = set (map fst source_bin_gdf)"
      by (simp only: assms)
    then show ?thesis by (simp only: set_map)
  qed
  have fill: "\<forall>(k, v) \<in> set ?col. k \<notin> fst ` set source_bin_gdf \<longrightarrow> v = placeholder"
  proof (clarify)
    fix k v
    assume in_col: "(k, v) \<in> set ?col" and notin: "k \<notin> fst ` set source_bin_gdf"
    have "k \<notin> fst ` set source_bin_log_likes"
      unfolding same by (rule notin)
    with in_col have "(k, v) \<in> set ?init"
      by (rule series_update_untouched)
    then show "v = placeholder" by auto
  qed
  have rows: "bin_rows (write_log_like placeholder source_bin_log_likes gdf) = bin_rows gdf"
    and col: "log_like (write_log_like placeholder source_bin_log_likes gdf) = Some ?col"
    by (simp_all add: write_log_like_def)
  show ?thesis
    unfolding default_filled_def rows col using labels fill by blast
qed

lemma poisson_test_filled:
  assumes "mfd_poisson_likelihood_test get_source_bins calc c gdf = Inr gdf'"
  shows "default_filled (get_source_bins (bin_rows gdf)) (default_likelihood (likelihood c)) gdf gdf'"
proof -
  let ?src = "get_source_bins (bin_rows gdf)"
  let ?f = "poisson_calc_row_log_like calc (likelihood c)
              (map (\<lambda>(k, x). (k, get_rupture_mfd x False)) ?src)"
  show ?thesis
  proof (cases "series_apply ?f ?src")
    case (Inl e)
    with assms show ?thesis
      by (simp add: mfd_poisson_likelihood_test_def)
  next
    case (Inr lls)
    with assms have res: "gdf' = write_log_like (default_likelihood (likelihood c)) lls gdf"
      by (simp add: mfd_poisson_likelihood_test_def)
    show ?thesis
      unfolding res by (rule write_log_like_filled) (rule series_apply_labels [OF Inr])
  qed
qed

lemma empirical_test_filled:
  assumes "mfd_empirical_likelihood_test get_source_bins calc par c gdf g = Inr (gdf'', g')"
  shows "default_filled (get_source_bins (bin_rows gdf)) (default_likelihood (likelihood c)) gdf gdf''"
proof -
  let ?src = "get_source_bins (bin_rows gdf)"
  let ?mfds = "if \<not> parallel c
               then series_apply_st
                      (\<lambda>b. get_stochastic_mfd b (n_iters (likelihood c)) (investigation_time (likelihood c)))
                      ?src g
               else get_stochastic_mfds_parallel par ?src
                      (n_iters (likelihood c)) (investigation_time (likelihood c)) g"
  show ?thesis
  proof (cases ?mfds)
    case (Inl e)
    with assms show ?thesis
      by (simp add: mfd_empirical_likelihood_test_def)
  next
    case (Inr r)
    obtain source_bin_mfds g1 where r: "r = (source_bin_mfds, g1)" by (cases r)
    let ?f = "empirical_calc_row_log_like calc (likelihood c) source_bin_mfds"
    show ?thesis
    proof (cases "series_apply ?f ?src")
      case (Inl e)
      with assms Inr r show ?thesis
        by (simp add: mfd_empirical_likelihood_test_def)
    next
      case lls: (Inr lls)
      with assms Inr r have res: "gdf'' = write_log_like (default_likelihood (likelihood c)) lls gdf"
        by (simp add: mfd_empirical_likelihood_test_def)
      show ?thesis
        unfolding res by (rule write_log_like_filled) (rule series_apply_labels [OF lls])
    qed
  qed
qed

lemma ex_source_rows: "ex_get_source_bins (bin_rows ex_bin_gdf) = [(1, ex_source_bin)]"
  by (simp add: ex_get_source_bins_def ex_bin_gdf_def ex_source_bin_def ex_empty_bin_def)

lemma ex_poisson_run:
  "mfd_poisson_likelihood_test ex_get_source_bins ex_calc (ex_cfg ''poisson'') ex_bin_gdf =
     Inr (ex_bin_gdf\<lparr>log_like := Some [(1, Fin (- 1)), (2, Fin (- 100))]\<rparr>)"
  by (simp add: mfd_poisson_likelihood_test_def ex_source_rows poisson_calc_row_log_like_def
        ex_calc_def ex_cfg_def write_log_like_def series_update_def)
    (simp add: ex_bin_gdf_def)

lemma ex_sample_run:
  "get_stochastic_mfd_counts ex_source_bin 2 1 0 = Inr ([5 \<mapsto> [0, 1], 6 \<mapsto> [2, 2]], 2)"
  by (simp add: get_stochastic_mfd_counts_def ex_source_bin_def py_int_def numeral_2_eq_2
        fun_upd_twist)

lemma ex_empirical_run:
  "mfd_empirical_likelihood_test ex_get_source_bins ex_calc ex_parallelize (ex_cfg ''empirical'')
       ex_bin_gdf 0 =
     Inr (ex_bin_gdf\<lparr>log_like := Some [(1, Fin (- 2)), (2, Fin (- 100))]\<rparr>, 2)"
  by (simp add: mfd_empirical_likelihood_test_def ex_source_rows empirical_calc_row_log_like_def
        ex_calc_def ex_cfg_def write_log_like_def series_update_def get_stochastic_mfd_def
        ex_sample_run)
    (simp add: ex_bin_gdf_def)

text \<open>
  C4. When \<^verbatim>\<open>mfd_poisson_likelihood_test\<close> or \<^verbatim>\<open>mfd_empirical_likelihood_test\<close> has
  run on a bin collection, the collection has the rows it had, and the \<^verbatim>\<open>log_like\<close>
  value of every row that is not among the source bins is the configured
  \<^verbatim>\<open>default_likelihood\<close>.
\<close>

theorem likelihood_tests_default_filled:
  "(mfd_poisson_likelihood_test get_source_bins calc c gdf = Inr gdf'
      \<longrightarrow> default_filled (get_source_bins (bin_rows gdf)) (default_likelihood (likelihood c))
            gdf gdf')
   \<and> (mfd_empirical_likelihood_test get_source_bins calc par c gdf g = Inr (gdf'', g')
      \<longrightarrow> default_filled (get_source_bins (bin_rows gdf)) (default_likelihood (likelihood c))
            gdf gdf'')"
proof (intro conjI impI)
  assume "mfd_poisson_likelihood_test get_source_bins calc c gdf = Inr gdf'"
  then show "default_filled (get_source_bins (bin_rows gdf)) (default_likelihood (likelihood c))
               gdf gdf'"
    by (rule poisson_test_filled)
next
  assume "mfd_empirical_likelihood_test get_source_bins calc par c gdf g = Inr (gdf'', g')"
  then show "default_filled (get_source_bins (bin_rows gdf)) (default_likelihood (likelihood c))
               gdf gdf''"
    by (rule empirical_test_filled)
qed

theorem likelihood_tests_default_filled_witness:
  "mfd_poisson_likelihood_test ex_get_source_bins ex_calc (ex_cfg ''poisson'') ex_bin_gdf =
     Inr (ex_bin_gdf\<lparr>log_like := Some [(1, Fin (- 1)), (2, Fin (- 100))]\<rparr>)
   \<and> mfd_empirical_likelihood_test ex_get_source_bins ex_calc ex_parallelize (ex_cfg ''empirical'')
        ex_bin_gdf 0 =
     Inr (ex_bin_gdf\<lparr>log_like := Some [(1, Fin (- 2)), (2, Fin (- 100))]\<rparr>, 2)
   \<and> default_filled [(1, ex_source_bin)] (Fin (- 100)) ex_bin_gdf
        (ex_bin_gdf\<lparr>log_like := Some [(1, Fin (- 1)), (2, Fin (- 100))]\<rparr>)
   \<and> default_filled [(1, ex_source_bin)] (Fin (- 100)) ex_bin_gdf
        (ex_bin_gdf\<lparr>log_like := Some [(1, Fin (- 2)), (2, Fin (- 100))]\<rparr>)"
proof -
  have p: "default_likelihood (likelihood (ex_cfg ''poisson'')) = Fin (- 100)"
    and e: "default_likelihood (likelihood (ex_cfg ''empirical'')) = Fin (- 100)"
    by (simp_all add: ex_cfg_def)
  from likelihood_tests_default_filled
         [of ex_get_source_bins ex_calc "ex_cfg ''poisson''" ex_bin_gdf
             "ex_bin_gdf\<lparr>log_like := Some [(1, Fin (- 1)), (2, Fin (- 100))]\<rparr>"]
       ex_poisson_run
  have "default_filled [(1, ex_source_bin)] (Fin (- 100)) ex_bin_gdf
          (ex_bin_gdf\<lparr>log_like := Some [(1, Fin (- 1)), (2, Fin (- 100))]\<rparr>)"
    unfolding ex_source_rows p by blast
  moreover
  from likelihood_tests_default_filled
         [of ex_get_source_bins ex_calc "ex_cfg ''empirical''" ex_bin_gdf _ ex_parallelize 0
             "ex_bin_gdf\<lparr>log_like := Some [(1, Fin (- 2)), (2, Fin (- 100))]\<rparr>" 2]
       ex_empirical_run
  have "default_filled [(1, ex_source_bin)] (Fin (- 100)) ex_bin_gdf
          (ex_bin_gdf\<lparr>log_like := Some [(1, Fin (- 2)), (2, Fin (- 100))]\<rparr>)"
    unfolding ex_source_rows e by blast
  ultimately show ?thesis
    using ex_poisson_run ex_empirical_run by simp
qed

text \<open>
  C3. With the method \<^verbatim>\<open>'bayes'\<close>, which is neither \<^verbatim>\<open>'empirical'\<close> nor
  \<^verbatim>\<open>'poisson'\<close>, \<^verbatim>\<open>mfd_likelihood_test\<close> does not fail with an error about the
  method. Without a \<^verbatim>\<open>report\<close> section it returns \<^verbatim>\<open>None\<close> and leaves the bin
  collection as it was, without a \<^verbatim>\<open>log_like\<close> column; with a \<^verbatim>\<open>report\<close> section
  it goes on to read that column and raises \<^verbatim>\<open>AttributeError\<close>.
\<close>

theorem mfd_likelihood_test_unknown_method_silent:
  "mfd_likelihood_test ex_get_source_bins ex_calc ex_parallelize (\<lambda>col. ''<table>'')
       (ex_cfg ''bayes'') ex_bin_gdf 0 =
     Inr (ex_bin_gdf, 0, None)
   \<and> mfd_likelihood_test ex_get_source_bins ex_calc ex_parallelize (\<lambda>col. ''<table>'')
       ((ex_cfg ''bayes'')\<lparr>report := True\<rparr>) ex_bin_gdf 0 =
     Inl AttributeError"
  by (simp add: mfd_likelihood_test_def ex_cfg_def ex_bin_gdf_def)

end
